theory Spec2Isabelle
  imports Main "HOL-Library.Word" "HOL-Library.AList"
begin

unbundle bit_operations_syntax

section \<open>Data model of the ID3v2 decoder (id3/id3v2/id3v2.go)\<close>

text \<open>
  Go's \<open>byte\<close> is an 8-bit word, \<open>uint16\<close>/\<open>uint32\<close> are words that wrap, a
  \<open>rune\<close> is a 32-bit value.  A Go \<open>string\<close> and a \<open>[]byte\<close> are both byte
  sequences, so both are \<open>byte list\<close>; \<open>str\<close> turns a literal into its bytes.
\<close>

type_synonym byte = "8 word"
type_synonym uint16 = "16 word"
type_synonym uint32 = "32 word"
type_synonym rune = "32 word"
type_synonym gostring = "byte list"

definition str :: "string \<Rightarrow> gostring" where
  "str s = map of_char s"

text \<open>
  Every error value the decoder can return, one constructor each.  \<open>Panic\<close> is not a
  returned value: it stands for a run-time panic (index or slice bounds out of range),
  which unwinds the whole call; nothing in the package recovers from it.
\<close>

datatype error =
    EOF                          \<comment> \<open>\<open>io.EOF\<close>\<close>
  | ErrUnexpectedEOF             \<comment> \<open>\<open>io.ErrUnexpectedEOF\<close>\<close>
  | ErrBadHeader
  | ErrUnknownFlag
  | ErrEncryption
  | ErrFrameHeaderEOF            \<comment> \<open>"unexpected eof in frame header"\<close>
  | ErrMalformedBOM
  | ErrUnknownEncoding byte      \<comment> \<open>"id3v2: unknown encoding 0x%02x"\<close>
  | ErrTerminatedStringEOF       \<comment> \<open>"id3v2: unexpected eof inside terminated string"\<close>
  | ErrZlibHeader                \<comment> \<open>\<open>zlib.ErrHeader\<close>\<close>
  | ErrZlibDictionary            \<comment> \<open>\<open>zlib.ErrDictionary\<close>\<close>
  | ErrSyntax                    \<comment> \<open>\<open>strconv.ErrSyntax\<close>\<close>
  | ErrRange                     \<comment> \<open>\<open>strconv.ErrRange\<close>\<close>
  | ErrDiscardPadding error      \<comment> \<open>\<open>errors.Wrap(err, "discard padding")\<close>\<close>
  | ErrReadFrames error          \<comment> \<open>\<open>errors.Wrap(err, "read frames")\<close>\<close>
  | Panic

record Header =
  Magic :: "byte list"
  Major :: byte
  Minor :: byte
  Flags :: byte
  Size :: uint32

record frameHeader =
  fhSize :: uint32
  fhFlags :: uint16

definition flagUnsynchronisation :: byte where "flagUnsynchronisation = push_bit 7 1"
definition flagExtendedHeader :: byte where "flagExtendedHeader = push_bit 6 1"
definition flagFooterPresent :: byte where "flagFooterPresent = push_bit 4 1"

definition frameCompressed :: uint16 where "frameCompressed = push_bit 3 1"
definition frameEncrypted :: uint16 where "frameEncrypted = push_bit 2 1"
definition frameUnsynchronisation :: uint16 where "frameUnsynchronisation = push_bit 1 1"
definition frameDataLengthIndicator :: uint16 where "frameDataLengthIndicator = push_bit 0 1"

definition footerSize :: uint32 where "footerSize = 10"

definition encISO8859_1 :: byte where "encISO8859_1 = 0x00"
definition encUTF16_BOM :: byte where "encUTF16_BOM = 0x01"
definition encUTF16BE :: byte where "encUTF16BE = 0x02"
definition encUTF8 :: byte where "encUTF8 = 0x03"

section \<open>Synchsafe integers\<close>

text \<open>\<open>synchsafe32\<close>, statement by statement.\<close>

definition synchsafe32 :: "uint32 \<Rightarrow> uint32" where
  "synchsafe32 n =
     (let m = n AND 0x7f;
          m = m OR drop_bit 1 (n AND 0x7f00);
          m = m OR drop_bit 2 (n AND 0x7f0000);
          m = m OR drop_bit 3 (n AND 0x7f000000)
      in m)"

text \<open>\<open>binary.BigEndian.Uint32\<close> and \<open>Uint16\<close> on a buffer of 4 (2) bytes.\<close>

definition be32 :: "byte list \<Rightarrow> uint32" where
  "be32 b = push_bit 24 (ucast (b ! 0)) OR push_bit 16 (ucast (b ! 1))
            OR push_bit 8 (ucast (b ! 2)) OR ucast (b ! 3)"

definition be16 :: "byte list \<Rightarrow> uint16" where
  "be16 b = push_bit 8 (ucast (b ! 0)) OR ucast (b ! 1)"

text \<open>
  The repository only decodes; the encoding that the round-trip property speaks of
  is written from the property's words: four bytes, most significant first, each
  carrying seven bits of the value with bit 7 clear.
\<close>

definition encodeSynchsafe :: "uint32 \<Rightarrow> byte list" where
  "encodeSynchsafe v =
     [ucast (drop_bit 21 v AND 0x7f), ucast (drop_bit 14 v AND 0x7f),
      ucast (drop_bit 7 v AND 0x7f), ucast (v AND 0x7f)]"

section \<open>Text decoding\<close>

text \<open>
  \<open>string(rs)\<close> for a rune slice is the UTF-8 encoding of each rune, an invalid rune
  (beyond U+10FFFF, or a surrogate) becoming U+FFFD; \<open>utf8.EncodeRune\<close> compares the
  rune as \<open>uint32\<close>.
\<close>

definition encodeRune :: "rune \<Rightarrow> byte list" where
  "encodeRune r =
     (if r \<le> 0x7F then [ucast r]
      else if r \<le> 0x7FF then
        [0xC0 OR ucast (drop_bit 6 r), 0x80 OR (ucast r AND 0x3F)]
      else if r > 0x10FFFF \<or> (0xD800 \<le> r \<and> r \<le> 0xDFFF) then [0xEF, 0xBF, 0xBD]
      else if r \<le> 0xFFFF then
        [0xE0 OR ucast (drop_bit 12 r), 0x80 OR (ucast (drop_bit 6 r) AND 0x3F),
         0x80 OR (ucast r AND 0x3F)]
      else
        [0xF0 OR ucast (drop_bit 18 r), 0x80 OR (ucast (drop_bit 12 r) AND 0x3F),
         0x80 OR (ucast (drop_bit 6 r) AND 0x3F), 0x80 OR (ucast r AND 0x3F)])"

definition stringOfRunes :: "rune list \<Rightarrow> gostring" where
  "stringOfRunes rs = concat (map encodeRune rs)"

text \<open>\<open>decodeLatin1\<close>: every byte is one rune.\<close>

definition decodeLatin1 :: "byte list \<Rightarrow> gostring" where
  "decodeLatin1 buf = stringOfRunes (map ucast buf)"

text \<open>
  The rune loops of \<open>decodeUTF16BE\<close> and \<open>decodeUTF16LE\<close>.  Each step reads
  \<open>buf[i]\<close> and \<open>buf[i+1]\<close>; with one byte left \<open>buf[i+1]\<close> is out of range and
  the function panics.
\<close>

fun runesUTF16BE :: "byte list \<Rightarrow> error + rune list" where
  "runesUTF16BE [] = Inr []"
| "runesUTF16BE [a] = Inl Panic"
| "runesUTF16BE (a # b # buf) =
     (case runesUTF16BE buf of
        Inl e \<Rightarrow> Inl e
      | Inr s \<Rightarrow> Inr ((ucast a OR push_bit 8 (ucast b)) # s))"

fun runesUTF16LE :: "byte list \<Rightarrow> error + rune list" where
  "runesUTF16LE [] = Inr []"
| "runesUTF16LE [a] = Inl Panic"
| "runesUTF16LE (a # b # buf) =
     (case runesUTF16LE buf of
        Inl e \<Rightarrow> Inl e
      | Inr s \<Rightarrow> Inr ((push_bit 8 (ucast a) OR ucast b) # s))"

definition decodeUTF16BE :: "byte list \<Rightarrow> error + gostring" where
  "decodeUTF16BE buf = map_sum id stringOfRunes (runesUTF16BE buf)"

definition decodeUTF16LE :: "byte list \<Rightarrow> error + gostring" where
  "decodeUTF16LE buf = map_sum id stringOfRunes (runesUTF16LE buf)"

text \<open>\<open>bytes.Replace(buf, {0xFF, 0x00}, {0xFF}, -1)\<close>: left to right, not overlapping.\<close>

fun replaceFF00 :: "byte list \<Rightarrow> byte list" where
  "replaceFF00 (a # b # buf) =
     (if a = 0xFF \<and> b = 0x00 then 0xFF # replaceFF00 buf else a # replaceFF00 (b # buf))"
| "replaceFF00 buf = buf"

text \<open>\<open>strings.TrimRight(s, "\x00")\<close>.\<close>

definition trimRightNul :: "gostring \<Rightarrow> gostring" where
  "trimRightNul s = rev (dropWhile (\<lambda>b. b = 0) (rev s))"

text \<open>
  \<open>decodeTextFrame\<close>.  For selector 1 the slices \<open>buf[:2]\<close> and \<open>buf[2:]\<close> are
  taken before the byte-order mark is looked at; with fewer than two bytes they are
  out of range and the function panics.
\<close>

definition decodeTextFrame :: "byte \<Rightarrow> byte list \<Rightarrow> bool \<Rightarrow> error + gostring" where
  "decodeTextFrame enc buf0 unsynch =
     (if length buf0 = 0 then Inr []
      else
        let buf = (if unsynch then replaceFF00 buf0 else buf0);
            s = (if enc = encISO8859_1 then Inr (decodeLatin1 buf)
                 else if enc = encUTF16_BOM then
                   (if length buf < 2 then Inl Panic
                    else
                      let bom = take 2 buf; buf = drop 2 buf
                      in if bom = [0xFF, 0xFE] then decodeUTF16BE buf
                         else if bom = [0xFE, 0xFF] then decodeUTF16LE buf
                         else Inl ErrMalformedBOM)
                 else if enc = encUTF16BE then decodeUTF16BE buf
                 else if enc = encUTF8 then Inr buf
                 else Inl (ErrUnknownEncoding enc))
        in map_sum id trimRightNul s)"

section \<open>Terminated strings and user-defined text frames\<close>

text \<open>
  A \<open>*bytes.Buffer\<close> is modelled by its unread bytes; a function that reads from it
  returns the bytes left unread next to its result.

  The loop of \<open>readTerminatedString\<close> for the double-byte encodings: \<open>r.Next(2)\<close>
  takes two bytes (fewer at the end of the buffer, which is then empty and the
  result an error); a pair of nulls ends the string; otherwise the first byte of the
  pair is appended and \<open>r.UnreadByte()\<close> puts the second one back, so the next
  pair starts one byte further on.
\<close>

fun scanTerminator :: "byte list \<Rightarrow> byte list \<Rightarrow> (error + gostring) \<times> byte list" where
  "scanTerminator buf (a # b # r) =
     (if a = 0 \<and> b = 0 then (Inr buf, r) else scanTerminator (buf @ [a]) (b # r))"
| "scanTerminator buf r = (Inl ErrTerminatedStringEOF, [])"

text \<open>
  \<open>r.ReadString(0)\<close> returns the bytes up to and including the first null; without
  a null it consumes the whole buffer and fails with \<open>io.EOF\<close>.
\<close>

definition readTerminatedString :: "byte \<Rightarrow> byte list \<Rightarrow> (error + gostring) \<times> byte list" where
  "readTerminatedString enc r =
     (if enc = encISO8859_1 \<or> enc = encUTF8 then
        (if 0 \<in> set r then
           let s = takeWhile (\<lambda>b. b \<noteq> 0) r @ [0]
           in (if length s \<le> 1 then Inr [] else Inr (butlast s), drop (length s) r)
         else (Inl EOF, []))
      else scanTerminator [] r)"

text \<open>
  \<open>decodeTXXX\<close>.  The map \<open>txxx\<close> is an association list with unique keys;
  \<open>txxx[name] = s\<close> is \<open>AList.update\<close>.  \<open>buf[0]\<close> panics on an empty body.
\<close>

definition decodeTXXX ::
    "(gostring \<times> gostring) list \<Rightarrow> byte list \<Rightarrow> bool \<Rightarrow> error + (gostring \<times> gostring) list" where
  "decodeTXXX txxx buf unsynch =
     (case buf of
        [] \<Rightarrow> Inl Panic
      | enc # b \<Rightarrow>
          (case readTerminatedString enc b of
             (Inl err, b') \<Rightarrow> Inl err
           | (Inr name, b') \<Rightarrow>
               (case decodeTextFrame enc b' unsynch of
                  Inl err \<Rightarrow> Inl err
                | Inr s \<Rightarrow> Inr (AList.update name s txxx))))"

subsection \<open>The static tables\<close>

definition txxxEquivTable :: "(string \<times> string) list" where
  "txxxEquivTable =
    [(''ALBUM'', ''TALB''), (''BPM'', ''TBPM''), (''COMPOSER'', ''TCOM''),
     (''GENRE'', ''TCON''), (''COPYRIGHT'', ''TCOP''), (''ENCODINGTIME'', ''TDEN''),
     (''PLAYLISTDELAY'', ''TDLY''), (''ORIGINALDATE'', ''TDOR''), (''DATE'', ''TDRC''),
     (''RELEASEDATE'', ''TDRL''), (''TAGGINGDATE'', ''TDTG''), (''ENCODEDBY'', ''TENC''),
     (''LYRICIST'', ''TEXT''), (''FILETYPE'', ''TFLT''), (''CONTENTGROUP'', ''TIT1''),
     (''TITLE'', ''TIT2''), (''SUBTITLE'', ''TIT3''), (''INITIALKEY'', ''TKEY''),
     (''LANGUAGE'', ''TLAN''), (''LENGTH'', ''TLEN''), (''MEDIA'', ''TMED''),
     (''MOOD'', ''TMOO''), (''ORIGINALALBUM'', ''TOAL''), (''ORIGINALFILENAME'', ''TOFN''),
     (''ORIGINALLYRICIST'', ''TOLY''), (''ORIGINALARTIST'', ''TOPE''), (''OWNER'', ''TOWN''),
     (''ARTIST'', ''TPE1''), (''ALBUMARTIST'', ''TPE2''), (''CONDUCTOR'', ''TPE3''),
     (''REMIXER'', ''TPE4''), (''DISCNUMBER'', ''TPOS''), (''PRODUCEDNOTICE'', ''TPRO''),
     (''LABEL'', ''TPUB''), (''TRACKNUMBER'', ''TRCK''), (''RADIOSTATION'', ''TRSN''),
     (''RADIOSTATIONOWNER'', ''TRSO''), (''ALBUMSORT'', ''TSOA''), (''ARTISTSORT'', ''TSOP''),
     (''TITLESORT'', ''TSOT''), (''ALBUMARTISTSORT'', ''TSO2''), (''ISRC'', ''TSRC''),
     (''ENCODING'', ''TSSE'')]"

definition v22EquivTable :: "(string \<times> string) list" where
  "v22EquivTable =
    [(''BUF'', ''RBUF''), (''CNT'', ''PCNT''), (''COM'', ''COMM''), (''CRA'', ''AENC''),
     (''ETC'', ''ETCO''), (''GEO'', ''GEOB''), (''IPL'', ''TIPL''), (''MCI'', ''MCDI''),
     (''MLL'', ''MLLT''), (''POP'', ''POPM''), (''REV'', ''RVRB''), (''SLT'', ''SYLT''),
     (''STC'', ''SYTC''), (''TAL'', ''TALB''), (''TBP'', ''TBPM''), (''TCM'', ''TCOM''),
     (''TCO'', ''TCON''), (''TCP'', ''TCMP''), (''TCR'', ''TCOP''), (''TDY'', ''TDLY''),
     (''TEN'', ''TENC''), (''TFT'', ''TFLT''), (''TKE'', ''TKEY''), (''TLA'', ''TLAN''),
     (''TLE'', ''TLEN''), (''TMT'', ''TMED''), (''TOA'', ''TOAL''), (''TOF'', ''TOFN''),
     (''TOL'', ''TOLY''), (''TOR'', ''TDOR''), (''TOT'', ''TOAL''), (''TP1'', ''TPE1''),
     (''TP2'', ''TPE2''), (''TP3'', ''TPE3''), (''TP4'', ''TPE4''), (''TPA'', ''TPOS''),
     (''TPB'', ''TPUB''), (''TRC'', ''TSRC''), (''TRD'', ''TDRC''), (''TRK'', ''TRCK''),
     (''TS2'', ''TSO2''), (''TSA'', ''TSOA''), (''TSC'', ''TSOC''), (''TSP'', ''TSOP''),
     (''TSS'', ''TSSE''), (''TST'', ''TSOT''), (''TT1'', ''TIT1''), (''TT2'', ''TIT2''),
     (''TT3'', ''TIT3''), (''TXT'', ''TOLY''), (''TXX'', ''TXXX''), (''TYE'', ''TDRC''),
     (''UFI'', ''UFID''), (''ULT'', ''USLT''), (''WAF'', ''WOAF''), (''WAR'', ''WOAR''),
     (''WAS'', ''WOAS''), (''WCM'', ''WCOM''), (''WCP'', ''WCOP''), (''WPB'', ''WPUB''),
     (''WXX'', ''WXXX'')]"

definition txxxEquiv :: "gostring \<rightharpoonup> gostring" where
  "txxxEquiv = map_of (map (\<lambda>(k, v). (str k, str v)) txxxEquivTable)"

definition v22Equiv :: "gostring \<rightharpoonup> gostring" where
  "v22Equiv = map_of (map (\<lambda>(k, v). (str k, str v)) v22EquivTable)"

text \<open>
  \<open>translateTXXXFrames\<close> ranges over the map \<open>txxx\<close>, in an order Go leaves open:
  here the order of the association list, whichever it is.
\<close>

fun translateTXXXFrames ::
    "(gostring \<rightharpoonup> gostring) \<Rightarrow> (gostring \<times> gostring) list \<Rightarrow> (gostring \<rightharpoonup> gostring)" where
  "translateTXXXFrames frames [] = frames"
| "translateTXXXFrames frames ((key, val) # txxx) =
     (case txxxEquiv key of
        Some frameID \<Rightarrow> translateTXXXFrames (frames(frameID \<mapsto> val)) txxx
      | None \<Rightarrow> translateTXXXFrames frames txxx)"

section \<open>Frame scanning\<close>

text \<open>
  \<open>io.ReadFull(rr, buf)\<close> on the \<open>*bytes.Reader\<close> \<open>rr\<close>, which is modelled by its
  unread bytes: with \<open>n = len(buf)\<close> bytes available it returns them; otherwise it fails,
  with \<open>io.EOF\<close> if nothing could be read and \<open>io.ErrUnexpectedEOF\<close> if some but not
  all could.  Asked for no bytes it succeeds.
\<close>

definition ReadFull :: "byte list \<Rightarrow> nat \<Rightarrow> error + (byte list \<times> byte list)" where
  "ReadFull r n =
     (if n \<le> length r then Inr (take n r, drop n r)
      else if r = [] then Inl EOF
      else Inl ErrUnexpectedEOF)"

text \<open>
  \<open>validFrameName\<close>: the pattern \<open>^[A-Z0-9]+\x00*$\<close>, one or more capitals or digits
  followed by nulls only.
\<close>

definition isUpperOrDigit :: "byte \<Rightarrow> bool" where
  "isUpperOrDigit c = ((0x41 \<le> c \<and> c \<le> 0x5A) \<or> (0x30 \<le> c \<and> c \<le> 0x39))"

definition validFrameName :: "byte list \<Rightarrow> bool" where
  "validFrameName name =
     (takeWhile isUpperOrDigit name \<noteq> [] \<and> list_all (\<lambda>c. c = 0) (dropWhile isUpperOrDigit name))"

text \<open>
  \<open>zlib.NewReader(rr)\<close>, as far as \<open>readFrames\<close> sees it: it reads the two header
  bytes of the stream from \<open>rr\<close> (four more when the header announces a preset
  dictionary, whose checksum must be that of the empty dictionary) and fails on a
  short or malformed header.  The result is what is left of \<open>rr\<close>.
\<close>

definition zlibNewReader :: "byte list \<Rightarrow> error + byte list" where
  "zlibNewReader r =
     (case ReadFull r 2 of
        Inl e \<Rightarrow> Inl ErrUnexpectedEOF
      | Inr (scratch, r1) \<Rightarrow>
          if (scratch ! 0) AND 0x0f \<noteq> 8 \<or> drop_bit 4 (scratch ! 0) > 7
             \<or> unat (be16 scratch) mod 31 \<noteq> 0 then Inl ErrZlibHeader
          else if (scratch ! 1) AND 0x20 \<noteq> 0 then
            (case ReadFull r1 4 of
               Inl e \<Rightarrow> Inl ErrUnexpectedEOF
             | Inr (checksum, r2) \<Rightarrow> if be32 checksum \<noteq> 1 then Inl ErrZlibDictionary else Inr r2)
          else Inr r1)"

text \<open>
  The variables of \<open>readFrames\<close> that live across iterations of the frame loop: the
  reader, the position counter and the two maps.  \<open>frameID\<close>, \<open>frameSize\<close> and
  \<open>fh\<close> are written anew in every iteration before they are read, and
  \<open>sizeBuf[0]\<close> is never written when \<open>h.Major = 2\<close>.  The map \<open>txxx\<close> is an
  association list because \<open>translateTXXXFrames\<close> ranges over it.
\<close>

record scan =
  rr :: "byte list"
  pos :: uint32
  frames :: "gostring \<rightharpoonup> gostring"
  txxx :: "(gostring \<times> gostring) list"

text \<open>
  The inner loop that slides the identifier window over padding.  It ends with the
  window, the reader and the position (\<open>Window\<close>), or by \<open>break frameloop\<close> when
  the reader is exhausted (\<open>Exhausted\<close>, with the position reached).
\<close>

datatype window = Window "byte list" "byte list" uint32 | Exhausted uint32

fun skipPadding :: "uint32 \<Rightarrow> byte list \<Rightarrow> byte list \<Rightarrow> uint32 \<Rightarrow> window" where
  "skipPadding hSize frameID [] p =
     (if \<not> validFrameName frameID \<and> p < hSize then Exhausted p else Window frameID [] p)"
| "skipPadding hSize frameID (b # r) p =
     (if \<not> validFrameName frameID \<and> p < hSize then skipPadding hSize (tl frameID @ [b]) r (p + 1)
      else Window frameID (b # r) p)"

text \<open>
  The size and flags of a frame, read after its identifier: the frame size, the
  frame's unsynchronisation flag \<open>frameUnsynch\<close> and the reader after them.
\<close>

definition readFrameFields :: "Header \<Rightarrow> byte list \<Rightarrow> error + (uint32 \<times> bool \<times> byte list)" where
  "readFrameFields h r =
     (let allUnsynch = (Flags h AND flagUnsynchronisation \<noteq> 0) in
      if Major h = 2 then
        (case ReadFull r 3 of
           Inl err \<Rightarrow> Inl err
         | Inr (b, r1) \<Rightarrow> Inr (be32 (0 # b), False, r1))
      else
        (case ReadFull r 6 of
           Inl err \<Rightarrow> Inl err
         | Inr (b, r1) \<Rightarrow>
             let fh = \<lparr>fhSize = be32 (take 4 b), fhFlags = be16 (drop 4 b)\<rparr>;
                 frameSize = (if 4 \<le> Major h then synchsafe32 (fhSize fh) else fhSize fh)
             in if fhFlags fh AND frameEncrypted \<noteq> 0 then Inl ErrEncryption
                else
                  let frameUnsynch = (allUnsynch \<or> fhFlags fh AND frameUnsynchronisation \<noteq> 0)
                  in case (if fhFlags fh AND frameDataLengthIndicator \<noteq> 0 then
                             (case ReadFull r1 4 of
                                Inl err \<Rightarrow> Inl (if err = EOF then ErrFrameHeaderEOF else err)
                              | Inr (sizeBuf, r2) \<Rightarrow> Inr (frameSize - 4, r2))
                           else Inr (frameSize, r1)) of
                       Inl err \<Rightarrow> Inl err
                     | Inr (frameSize, r2) \<Rightarrow>
                         if fhFlags fh AND frameCompressed \<noteq> 0 then
                           (case zlibNewReader r2 of
                              Inl err \<Rightarrow> Inl err
                            | Inr r3 \<Rightarrow> Inr (frameSize, frameUnsynch, r3))
                         else Inr (frameSize, frameUnsynch, r2)))"

text \<open>
  The body of a frame, dispatched on the identifier as read.  The result is the value
  to store, or \<open>None\<close> where the source says \<open>continue\<close>, and the state after the
  body.  An error of \<open>decodeTXXX\<close> is logged and dropped; a panic is not an error
  value and unwinds.  \<open>io.CopyN\<close> to \<open>ioutil.Discard\<close> skips what is there, its
  error is not looked at.
\<close>

definition decodeFrame ::
    "byte list \<Rightarrow> uint32 \<Rightarrow> bool \<Rightarrow> scan \<Rightarrow> error + (gostring option \<times> scan)" where
  "decodeFrame frameID frameSize frameUnsynch st =
     (if frameID ! 0 = 0x54 then
        (case ReadFull (rr st) (unat frameSize) of
           Inl err \<Rightarrow> Inl err
         | Inr (buf, r) \<Rightarrow>
             if frameID = str ''TXXX'' then
               (case decodeTXXX (txxx st) buf frameUnsynch of
                  Inl err \<Rightarrow> if err = Panic then Inl Panic else Inr (None, st\<lparr>rr := r\<rparr>)
                | Inr t \<Rightarrow> Inr (None, st\<lparr>rr := r, txxx := t\<rparr>))
             else
               (case buf of
                  [] \<Rightarrow> Inl Panic
                | enc # b \<Rightarrow>
                    (case decodeTextFrame enc b frameUnsynch of
                       Inl err \<Rightarrow> Inl err
                     | Inr s \<Rightarrow> Inr (Some (takeWhile (\<lambda>c. c \<noteq> 0) s), st\<lparr>rr := r\<rparr>))))
      else if frameID = str ''APIC'' \<or> frameID = str ''PIC'' \<or> frameID = str ''PRIV'' then
        Inr (None, st\<lparr>rr := drop (unat frameSize) (rr st)\<rparr>)
      else if frameID = str ''COMM'' then
        (case ReadFull (rr st) (unat frameSize) of
           Inl err \<Rightarrow> Inl err
         | Inr (buf, r) \<Rightarrow>
             (case buf of
                [] \<Rightarrow> Inl EOF
              | enc # b \<Rightarrow>
                  (case decodeTextFrame enc (snd (readTerminatedString enc (drop 3 b))) frameUnsynch of
                     Inl err \<Rightarrow> Inl err
                   | Inr s \<Rightarrow> Inr (Some s, st\<lparr>rr := r\<rparr>))))
      else
        (case ReadFull (rr st) (unat frameSize) of
           Inl err \<Rightarrow> Inl err
         | Inr (buf, r) \<Rightarrow> Inr (Some buf, st\<lparr>rr := r\<rparr>)))"

text \<open>
  The key a value is stored under: a three-byte identifier is looked up in
  \<open>v22Equiv\<close>, after the body has been decoded.
\<close>

definition storeKey :: "byte list \<Rightarrow> gostring" where
  "storeKey frameID =
     (if length frameID = 3 then
        (case v22Equiv frameID of Some newID \<Rightarrow> newID | None \<Rightarrow> frameID)
      else frameID)"

text \<open>
  The two sizes that depend on the version: the length of \<open>frameID\<close> and
  \<open>headerSize\<close>.
\<close>

definition idLen :: "Header \<Rightarrow> nat" where
  "idLen h = (if Major h = 2 then 3 else 4)"

definition headerSize :: "Header \<Rightarrow> uint32" where
  "headerSize h = (if Major h = 2 then 6 else 10)"

text \<open>
  One iteration of \<open>frameloop\<close>, entered with \<open>pos < h.Size\<close>, and the post
  statement \<open>pos += frameSize + headerSize\<close>, which \<open>continue\<close> runs too.
\<close>

datatype step = Continue scan | Break scan

definition iteration :: "Header \<Rightarrow> scan \<Rightarrow> error + step" where
  "iteration h st =
     (case ReadFull (rr st) (idLen h) of
        Inl err \<Rightarrow> if err = EOF then Inr (Break st) else Inl err
      | Inr (frameID, r) \<Rightarrow>
          (case skipPadding (Size h) frameID r (pos st) of
             Exhausted p \<Rightarrow> Inr (Break (st\<lparr>rr := [], pos := p\<rparr>))
           | Window frameID r1 p \<Rightarrow>
               if Size h \<le> p then Inr (Break (st\<lparr>rr := r1, pos := p\<rparr>))
               else
                 (case readFrameFields h r1 of
                    Inl err \<Rightarrow> Inl err
                  | Inr (frameSize, frameUnsynch, r2) \<Rightarrow>
                      (case decodeFrame frameID frameSize frameUnsynch (st\<lparr>rr := r2, pos := p\<rparr>) of
                         Inl err \<Rightarrow> Inl err
                       | Inr (v, st1) \<Rightarrow>
                           let st2 = (case v of
                                        None \<Rightarrow> st1
                                      | Some s \<Rightarrow> st1\<lparr>frames := (frames st1)(storeKey frameID \<mapsto> s)\<rparr>)
                           in Inr (Continue (st2\<lparr>pos := pos st2 + (frameSize + headerSize h)\<rparr>))))))"

text \<open>
  Every iteration that continues has consumed the identifier it read, so the reader
  gets shorter and the loop ends.
\<close>

lemma skipPadding_Window_length:
  "skipPadding hSize frameID r p = Window frameID' r' p' \<Longrightarrow> length r' \<le> length r"
  by (induction hSize frameID r p rule: skipPadding.induct) (auto split: if_splits)

lemma ReadFull_length:
  "ReadFull r n = Inr (b, r') \<Longrightarrow> length b = n \<and> length r' = length r - n \<and> n \<le> length r"
  by (auto simp add: ReadFull_def split: if_splits)

lemma zlibNewReader_length:
  "zlibNewReader r = Inr r' \<Longrightarrow> length r' \<le> length r"
  by (auto simp add: zlibNewReader_def split: sum.splits if_splits dest!: ReadFull_length)

lemma readFrameFields_length:
  "readFrameFields h r = Inr (frameSize, frameUnsynch, r') \<Longrightarrow> length r' \<le> length r"
  by (auto simp add: readFrameFields_def Let_def split: sum.splits if_splits prod.splits
      dest!: ReadFull_length zlibNewReader_length)

lemma decodeFrame_length:
  "decodeFrame frameID frameSize frameUnsynch st = Inr (v, st') \<Longrightarrow> length (rr st') \<le> length (rr st)"
  by (auto simp add: decodeFrame_def split: sum.splits if_splits prod.splits list.splits
      dest!: ReadFull_length)

lemma iteration_Continue_length:
  assumes "iteration h st = Inr (Continue st')"
  shows "length (rr st') < length (rr st)"
proof -
  have pos: "0 < idLen h" by (simp add: idLen_def)
  from assms obtain frameID r where rf: "ReadFull (rr st) (idLen h) = Inr (frameID, r)"
    by (auto simp add: iteration_def split: sum.splits if_splits)
  from assms rf obtain frameID1 r1 p where
    sp: "skipPadding (Size h) frameID r (pos st) = Window frameID1 r1 p"
    by (auto simp add: iteration_def split: sum.splits if_splits window.splits)
  from assms rf sp obtain frameSize frameUnsynch r2 where
    ff: "readFrameFields h r1 = Inr (frameSize, frameUnsynch, r2)"
    by (auto simp add: iteration_def split: sum.splits if_splits window.splits)
  from assms rf sp ff obtain v st1 where
    df: "decodeFrame frameID1 frameSize frameUnsynch (st\<lparr>rr := r2, pos := p\<rparr>) = Inr (v, st1)"
    and st': "rr st' = rr st1"
    by (auto simp add: iteration_def Let_def split: sum.splits if_splits window.splits option.splits)
  from ReadFull_length [OF rf] pos have "length r < length (rr st)" by arith
  moreover from skipPadding_Window_length [OF sp] have "length r1 \<le> length r" .
  moreover from readFrameFields_length [OF ff] have "length r2 \<le> length r1" .
  moreover from decodeFrame_length [OF df] have "length (rr st1) \<le> length r2" by simp
  ultimately show ?thesis using st' by simp
qed

text \<open>
  The loop \<open>frameloop\<close>: \<open>for ; pos < h.Size; pos += frameSize + headerSize\<close>.
\<close>

function frameloop :: "Header \<Rightarrow> scan \<Rightarrow> error + scan" where
  "frameloop h st =
     (if pos st < Size h then
        (case iteration h st of
           Inl err \<Rightarrow> Inl err
         | Inr (Break st') \<Rightarrow> Inr st'
         | Inr (Continue st') \<Rightarrow> frameloop h st')
      else Inr st)"
  by pat_completeness auto

termination frameloop
  by (relation "measure (\<lambda>(h, st). length (rr st))") (auto dest: iteration_Continue_length)

declare frameloop.simps [simp del]

text \<open>
  \<open>readFrames\<close>: the loop from position 0 with both maps empty, then
  \<open>translateTXXXFrames\<close>.
\<close>

definition readFrames :: "byte list \<Rightarrow> Header \<Rightarrow> error + (gostring \<rightharpoonup> gostring)" where
  "readFrames r h =
     (case frameloop h \<lparr>rr = r, pos = 0, frames = Map.empty, txxx = []\<rparr> of
        Inl err \<Rightarrow> Inl err
      | Inr st \<Rightarrow> Inr (translateTXXXFrames (frames st) (txxx st)))"


section \<open>Numbered fields\<close>























section \<open>Properties\<close>

subsection \<open>Synchsafe integers\<close>

lemma low7_mask: "(0x7f :: uint32) = mask 7"
  by (simp add: mask_eq_exp_minus_1)

lemma low7_mask_at8: "(0x7f00 :: uint32) = push_bit 8 (mask 7)"
  by (simp add: mask_eq_exp_minus_1)

lemma low7_mask_at16: "(0x7f0000 :: uint32) = push_bit 16 (mask 7)"
  by (simp add: mask_eq_exp_minus_1)

lemma low7_mask_at24: "(0x7f000000 :: uint32) = push_bit 24 (mask 7)"
  by (simp add: mask_eq_exp_minus_1)

lemma synchsafe32_bits:
  "bit (synchsafe32 n) k \<longleftrightarrow>
     (k < 7 \<and> bit n k) \<or> (7 \<le> k \<and> k < 14 \<and> bit n (k + 1))
     \<or> (14 \<le> k \<and> k < 21 \<and> bit n (k + 2)) \<or> (21 \<le> k \<and> k < 28 \<and> bit n (k + 3))"
  unfolding synchsafe32_def Let_def low7_mask low7_mask_at8 low7_mask_at16 low7_mask_at24
  apply (simp add: bit_simps add.commute[of 3 k])
  apply (intro iffI; elim disjE conjE; simp)
  apply arith+
  done

lemma be32_encodeSynchsafe_bits:
  "bit (be32 (encodeSynchsafe v)) k \<longleftrightarrow>
     (k < 7 \<and> bit v k) \<or> (8 \<le> k \<and> k < 15 \<and> bit v (k - 1))
     \<or> (16 \<le> k \<and> k < 23 \<and> bit v (k - 2)) \<or> (24 \<le> k \<and> k < 31 \<and> bit v (k - 3))"
proof -
  consider "k < 8" | "8 \<le> k" "k < 16" | "16 \<le> k" "k < 24" | "24 \<le> k"
    by linarith
  then show ?thesis
  proof cases
    case 1
    then show ?thesis
      unfolding be32_def encodeSynchsafe_def low7_mask
      by (simp add: bit_simps) linarith
  next
    case 2
    then have "7 + (k - 8) = k - 1" "k - 8 < 7 \<longleftrightarrow> k < 15" "k - 8 < 32" "k - 8 < 8" by arith+
    with 2 show ?thesis
      unfolding be32_def encodeSynchsafe_def low7_mask
      by (auto simp add: bit_simps)
  next
    case 3
    then have "14 + (k - 16) = k - 2" "k - 16 < 7 \<longleftrightarrow> k < 23" "k - 16 < 32" "k - 16 < 8" by arith+
    with 3 show ?thesis
      unfolding be32_def encodeSynchsafe_def low7_mask
      by (auto simp add: bit_simps)
  next
    case 4
    then have "21 + (k - 24) = k - 3" "k - 24 < 7 \<longleftrightarrow> k < 31" by arith+
    with 4 show ?thesis
      unfolding be32_def encodeSynchsafe_def low7_mask
      by (auto simp add: bit_simps)
  qed
qed

lemma bits_above_28:
  fixes v :: uint32
  assumes "v < 2 ^ 28" and "28 \<le> j"
  shows "\<not> bit v j"
proof -
  have "v AND mask 28 = v"
    using assms(1) by (rule less_mask_eq)
  then have "bit v j = bit (v AND mask 28) j"
    by simp
  also have "\<dots> = False"
    using assms(2) by (simp add: bit_simps)
  finally show ?thesis by simp
qed

lemma encodeSynchsafe_bit7_clear:
  "b \<in> set (encodeSynchsafe v) \<Longrightarrow> \<not> bit b 7"
  unfolding encodeSynchsafe_def low7_mask
  by (auto simp add: bit_simps)

text \<open>
  C8.  For every 28-bit value \<open>v\<close>, the synchsafe decoder applied to the four-byte
  synchsafe encoding of \<open>v\<close> (seven bits per byte, bit 7 clear, read as the
  big-endian \<open>uint32\<close> the header parser hands to \<open>synchsafe32\<close>) returns \<open>v\<close>.
\<close>

theorem synchsafe32_roundtrip:
  assumes "v < 2 ^ 28"
  shows "synchsafe32 (be32 (encodeSynchsafe v)) = v"
proof (rule bit_word_eqI)
  fix k
  assume "k < LENGTH(32)"
  consider "k < 7" | "7 \<le> k" "k < 14" | "14 \<le> k" "k < 21" | "21 \<le> k" "k < 28" | "28 \<le> k"
    by linarith
  then show "bit (synchsafe32 (be32 (encodeSynchsafe v))) k = bit v k"
  proof cases
    case 1
    then have "bit (synchsafe32 (be32 (encodeSynchsafe v))) k = bit (be32 (encodeSynchsafe v)) k"
      by (simp add: synchsafe32_bits)
    also have "\<dots> = bit v k"
      using 1 by (simp add: be32_encodeSynchsafe_bits)
    finally show ?thesis .
  next
    case 2
    then have "bit (synchsafe32 (be32 (encodeSynchsafe v))) k = bit (be32 (encodeSynchsafe v)) (k + 1)"
      by (simp add: synchsafe32_bits)
    also have "\<dots> = bit v k"
      using 2 by (simp add: be32_encodeSynchsafe_bits)
    finally show ?thesis .
  next
    case 3
    then have "bit (synchsafe32 (be32 (encodeSynchsafe v))) k = bit (be32 (encodeSynchsafe v)) (k + 2)"
      by (simp add: synchsafe32_bits)
    also have "\<dots> = bit v k"
      using 3 by (simp add: be32_encodeSynchsafe_bits)
    finally show ?thesis .
  next
    case 4
    then have "bit (synchsafe32 (be32 (encodeSynchsafe v))) k = bit (be32 (encodeSynchsafe v)) (k + 3)"
      by (simp add: synchsafe32_bits)
    also have "\<dots> = bit v k"
      using 4 by (simp add: be32_encodeSynchsafe_bits)
    finally show ?thesis .
  next
    case 5
    then have "\<not> bit (synchsafe32 (be32 (encodeSynchsafe v))) k"
      by (simp add: synchsafe32_bits)
    moreover have "\<not> bit v k"
      using assms 5 by (rule bits_above_28)
    ultimately show ?thesis by simp
  qed
qed

theorem synchsafe32_roundtrip_witness:
  "(0xABCDEF1 :: uint32) < 2 ^ 28
   \<and> encodeSynchsafe 0xABCDEF1 = [0x55, 0x73, 0x3D, 0x71]
   \<and> synchsafe32 (be32 (encodeSynchsafe 0xABCDEF1)) = 0xABCDEF1"
proof -
  have a: "(0xABCDEF1 :: uint32) < 2 ^ 28" by simp
  have b: "encodeSynchsafe 0xABCDEF1 = [0x55, 0x73, 0x3D, 0x71]"
    by (simp add: encodeSynchsafe_def)
  from synchsafe32_roundtrip [OF a] a b show ?thesis by blast
qed

subsection \<open>Text decoding\<close>

text \<open>
  C10.  The text-frame body decoder is not total.  With selector \<open>0x01\<close> and a one-byte
  content the slice \<open>buf[:2]\<close> is out of range; with UTF-16 content of odd length
  (selector \<open>0x02\<close>, or selector \<open>0x01\<close> after the byte-order mark) the last step of
  the rune loop reads \<open>buf[i+1]\<close> past the end.  Each of these calls panics.
\<close>

theorem decodeTextFrame_out_of_range:
  "decodeTextFrame 0x01 [0xFF] False = Inl Panic
   \<and> decodeTextFrame 0x02 [0x41, 0x00, 0x42] False = Inl Panic
   \<and> decodeTextFrame 0x01 [0xFF, 0xFE, 0x41] False = Inl Panic"
  by (simp add: decodeTextFrame_def encISO8859_1_def encUTF16_BOM_def encUTF16BE_def
      encUTF8_def decodeUTF16BE_def decodeUTF16LE_def)

text \<open>
  C2.  With selector \<open>0x02\<close> the content is handed to \<open>decodeUTF16BE\<close>, which takes
  the first byte of each unit as the low byte: the unit \<open>00 48\<close>, big-endian for
  \<open>H\<close>, comes out as U+4800 (UTF-8 \<open>E4 A0 80\<close>), and it is the little-endian unit
  \<open>48 00\<close> that comes out as \<open>H\<close>.
\<close>

theorem selector2_decoded_little_endian:
  "decodeTextFrame 0x02 [0x00, 0x48] False = Inr [0xE4, 0xA0, 0x80]
   \<and> decodeTextFrame 0x02 [0x48, 0x00] False = Inr [0x48]"
  by (simp add: decodeTextFrame_def encISO8859_1_def encUTF16_BOM_def encUTF16BE_def
      encUTF8_def decodeUTF16BE_def stringOfRunes_def encodeRune_def trimRightNul_def)

subsection \<open>Terminated strings\<close>

text \<open>
  C4.  The reader does not work in two-byte units.  In \<open>41 00 00 42\<close> the units are
  \<open>41 00\<close> and \<open>00 42\<close>: no unit is null, and the only null pair straddles the
  unit boundary; the reader takes that pair as the terminator, returns \<open>41\<close> and has
  consumed three bytes.  In a user-defined text frame with selector \<open>0x01\<close>, the
  description \<open>A\<close> and the value \<open>X\<close>, both little-endian with a byte-order mark,
  the description's terminator is found one byte early, in the high byte of \<open>A\<close> and
  the first byte of the null unit; the value then starts with the second byte of the
  null unit and its byte-order mark is refused.
\<close>

theorem terminator_straddles_units:
  "readTerminatedString 0x01 [0x41, 0x00, 0x00, 0x42] = (Inr [0x41], [0x42])
   \<and> readTerminatedString 0x01 [0xFF, 0xFE, 0x41, 0x00, 0x00, 0x00, 0xFF, 0xFE, 0x58, 0x00]
       = (Inr [0xFF, 0xFE, 0x41], [0x00, 0xFF, 0xFE, 0x58, 0x00])
   \<and> decodeTXXX [] [0x01, 0xFF, 0xFE, 0x41, 0x00, 0x00, 0x00, 0xFF, 0xFE, 0x58, 0x00] False
       = Inl ErrMalformedBOM"
  by (simp add: decodeTXXX_def readTerminatedString_def decodeTextFrame_def
      encISO8859_1_def encUTF16_BOM_def encUTF16BE_def encUTF8_def)

subsection \<open>The frame scan on concrete tags\<close>

lemmas scan_defs = readFrames_def frameloop.simps iteration_def idLen_def headerSize_def ReadFull_def
  validFrameName_def isUpperOrDigit_def readFrameFields_def decodeFrame_def storeKey_def
  be32_def be16_def str_def decodeTextFrame_def decodeTXXX_def readTerminatedString_def
  encISO8859_1_def encUTF16_BOM_def encUTF16BE_def encUTF8_def
  decodeLatin1_def stringOfRunes_def encodeRune_def trimRightNul_def
  flagUnsynchronisation_def frameEncrypted_def frameUnsynchronisation_def
  frameDataLengthIndicator_def frameCompressed_def synchsafe32_def
  v22Equiv_def v22EquivTable_def txxxEquiv_def txxxEquivTable_def Let_def

text \<open>
  C5.  In a version 2.2 tag the header's unsynchronisation flag does not reach the
  body decoder: \<open>frameUnsynch\<close> stays \<open>false\<close> on that branch.  The text frame
  \<open>TT2\<close> with body \<open>00 FF 00 41\<close> under a header with flag \<open>0x80\<close> is decoded
  without undoing the unsynchronisation and its value is cut at the stuffed null
  (\<open>C3 BF\<close>); the same body in a version 2.3 frame \<open>TIT2\<close> without frame flags,
  under the same header flag, is decoded with it (\<open>C3 BF 41\<close>).
\<close>

theorem v22_global_unsynchronisation_ignored:
  "readFrames (str ''TT2'' @ [0x00, 0x00, 0x04, 0x00, 0xFF, 0x00, 0x41])
     \<lparr>Magic = str ''ID3'', Major = 2, Minor = 0, Flags = 0x80, Size = 10\<rparr>
   = Inr [str ''TIT2'' \<mapsto> [0xC3, 0xBF]]
   \<and> readFrames (str ''TIT2'' @ [0x00, 0x00, 0x00, 0x04, 0x00, 0x00, 0x00, 0xFF, 0x00, 0x41])
     \<lparr>Magic = str ''ID3'', Major = 3, Minor = 0, Flags = 0x80, Size = 14\<rparr>
   = Inr [str ''TIT2'' \<mapsto> [0xC3, 0xBF, 0x41]]"
  by (simp add: scan_defs)

text \<open>
  C6.  A tag region of 14 bytes, a frame \<open>TIT2\<close> of 11 bytes followed by three
  bytes of padding: the next identifier read finds three bytes where it wants four and
  the scan fails with \<open>io.ErrUnexpectedEOF\<close>, returning no frames.  With four bytes
  of padding the scan ends cleanly with the frame collected.
\<close>

theorem partial_identifier_window_fails:
  "readFrames (str ''TIT2'' @ [0x00, 0x00, 0x00, 0x01, 0x00, 0x00, 0x00, 0x00, 0x00, 0x00])
     \<lparr>Magic = str ''ID3'', Major = 3, Minor = 0, Flags = 0, Size = 14\<rparr>
   = Inl ErrUnexpectedEOF
   \<and> readFrames (str ''TIT2'' @ [0x00, 0x00, 0x00, 0x01, 0x00, 0x00, 0x00, 0x00, 0x00, 0x00, 0x00])
     \<lparr>Magic = str ''ID3'', Major = 3, Minor = 0, Flags = 0, Size = 15\<rparr>
   = Inr [str ''TIT2'' \<mapsto> []]"
  by (simp add: scan_defs)

text \<open>
  C3.  The body decoder is chosen by the identifier as read, and the identifier is
  translated only when the value is stored.  A version 2.2 comment frame \<open>COM\<close>
  is not taken for a comment: its raw body, selector and language code included, is
  stored under \<open>COMM\<close>; the same body in a version 2.3 frame \<open>COMM\<close> is decoded
  to its text.
\<close>

theorem v22_dispatch_on_raw_identifier:
  "readFrames (str ''COM'' @ [0x00, 0x00, 0x07, 0x00] @ str ''eng'' @ [0x00] @ str ''hi'')
     \<lparr>Magic = str ''ID3'', Major = 2, Minor = 0, Flags = 0, Size = 13\<rparr>
   = Inr [str ''COMM'' \<mapsto> [0x00] @ str ''eng'' @ [0x00] @ str ''hi'']
   \<and> readFrames (str ''COMM'' @ [0x00, 0x00, 0x00, 0x07, 0x00, 0x00, 0x00] @ str ''eng'' @ [0x00] @ str ''hi'')
     \<lparr>Magic = str ''ID3'', Major = 3, Minor = 0, Flags = 0, Size = 17\<rparr>
   = Inr [str ''COMM'' \<mapsto> str ''hi'']"
  by (simp add: scan_defs)

subsection \<open>Failures inside the scan\<close>









subsection \<open>User-defined text frames\<close>











subsection \<open>Numbered fields\<close>




















end
